theory Spec2Isabelle
  imports Complex_Main "HOL-Library.Sublist" "HOL-Library.Log_Nat"
begin

section \<open>Identity Session Store: the linked-wallet operations of \<open>auth-context.tsx\<close>\<close>

subsection \<open>Data model\<close>

text \<open>
  \<open>interface UserData\<close>: the Session User held in the React state \<open>user\<close>.
  A field typed \<open>string | null\<close> is an option; the optional field
  \<open>walletAddresses?: string[]\<close> is \<open>None\<close> when the property is absent
  (the minimal user objects built at sign-in never carry it).
\<close>

record UserData =
  uid :: string
  email :: "string option"
  displayName :: "string option"
  photoURL :: "string option"
  walletAddresses :: "string list option"

text \<open>
  A document of the \<open>users\<close> collection, with the fields that \<open>createUserProfile\<close>
  and \<open>linkWalletToUser\<close> write. The store is schema-less, so the address list
  may be missing from a document that \<open>getDoc\<close> returns.
\<close>

record UserDoc =
  doc_uid :: string
  doc_email :: "string option"
  doc_displayName :: "string option"
  doc_photoURL :: "string option"
  doc_walletAddresses :: "string list option"
  doc_createdAt :: "string option"

text \<open>An error object thrown by the document store: its \<open>code\<close> and its \<open>message\<close>.\<close>

record FsError =
  code :: string
  message :: string

text \<open>What the provider throws to its caller: \<open>new Error(msg)\<close>.\<close>

datatype JsError = Error string

abbreviation NotAuthenticated :: JsError where
  "NotAuthenticated \<equiv> Error ''No user logged in''"

text \<open>The diagnostic channels: \<open>console.error\<close> and the toast notifications.\<close>

datatype diagnostic =
    ConsoleError string
  | Toast string string

text \<open>A request that reached the document store (whether or not it then failed).\<close>

datatype request =
    GetDoc string
  | UpdateDoc string
  | SetDoc string

text \<open>
  The external document store as the code sees it: the \<open>users\<close> collection keyed by
  user identifier, the fault (if any) that a read or a write meets (network,
  permission, service unavailable), and the requests received so far.
\<close>

record Firestore =
  docs :: "string \<rightharpoonup> UserDoc"
  readFault :: "FsError option"
  writeFault :: "FsError option"
  requests :: "request list"

text \<open>The state of \<open>AuthProvider\<close> that the wallet operations read and write.\<close>

record AuthState =
  user :: "UserData option"
  firestoreError :: "string option"
  diagnostics :: "diagnostic list"

subsection \<open>The document-store calls\<close>

definition getDoc :: "Firestore \<Rightarrow> string \<Rightarrow> (FsError + UserDoc option) \<times> Firestore" where
  "getDoc fs k =
     (let fs' = fs\<lparr>requests := requests fs @ [GetDoc k]\<rparr>
      in case readFault fs of
           Some e \<Rightarrow> (Inl e, fs')
         | None \<Rightarrow> (Inr (docs fs k), fs'))"

text \<open>\<open>updateDoc(ref, {walletAddresses: ws})\<close> replaces one field of an existing document.\<close>

definition updateDoc :: "Firestore \<Rightarrow> string \<Rightarrow> string list \<Rightarrow> (FsError + unit) \<times> Firestore" where
  "updateDoc fs k ws =
     (let fs' = fs\<lparr>requests := requests fs @ [UpdateDoc k]\<rparr>
      in case writeFault fs of
           Some e \<Rightarrow> (Inl e, fs')
         | None \<Rightarrow>
             (case docs fs k of
                None \<Rightarrow> (Inl \<lparr>code = ''not-found'', message = ''No document to update''\<rparr>, fs')
              | Some d \<Rightarrow>
                  (Inr (), fs'\<lparr>docs := (docs fs)(k \<mapsto> d\<lparr>doc_walletAddresses := Some ws\<rparr>)\<rparr>)))"

text \<open>\<open>setDoc(ref, data)\<close> writes the whole document.\<close>

definition setDoc :: "Firestore \<Rightarrow> string \<Rightarrow> UserDoc \<Rightarrow> (FsError + unit) \<times> Firestore" where
  "setDoc fs k d =
     (let fs' = fs\<lparr>requests := requests fs @ [SetDoc k]\<rparr>
      in case writeFault fs of
           Some e \<Rightarrow> (Inl e, fs')
         | None \<Rightarrow> (Inr (), fs'\<lparr>docs := (docs fs)(k \<mapsto> d)\<rparr>))"

subsection \<open>Error reporting\<close>

text \<open>\<open>String.prototype.includes\<close>: the pattern occurs as a contiguous run.\<close>

definition str_includes :: "string \<Rightarrow> string \<Rightarrow> bool" where
  "str_includes s pat = sublist pat s"

text \<open>
  \<open>handleFirestoreError\<close>: logs, classifies the error (setting \<open>firestoreError\<close> for
  the unavailable and permission classes), raises the "Database Error" toast and returns
  the message.
\<close>

definition handleFirestoreError :: "FsError \<Rightarrow> AuthState \<Rightarrow> string \<times> AuthState" where
  "handleFirestoreError e st =
     (let st1 = st\<lparr>diagnostics := diagnostics st @ [ConsoleError ''Firestore Error:'']\<rparr>;
          (errorMessage, st2) =
            (if code e = ''unavailable'' \<or> str_includes (message e) ''offline'' then
               (''Database is unavailable. Please check your internet connection.'',
                st1\<lparr>firestoreError := Some ''Firestore is unavailable. Make sure you've created a Firestore database in the Firebase Console and check your internet connection.''\<rparr>)
             else if code e = ''permission-denied'' then
               (''You don't have permission to access this data.'',
                st1\<lparr>firestoreError := Some ''Firestore permission denied. Check your security rules in the Firebase Console.''\<rparr>)
             else if code e = ''not-found'' then
               (''The requested data does not exist.'', st1)
             else (''An unexpected database error occurred.'', st1))
      in (errorMessage, st2\<lparr>diagnostics := diagnostics st2 @ [Toast ''Database Error'' errorMessage]\<rparr>))"

text \<open>
  \<open>isFirestoreInitialized\<close>: \<open>db\<close> is the module constant exported by
  \<open>lib/firebase.ts\<close>, undefined when the configuration is missing or the
  initialisation failed.
\<close>

definition isFirestoreInitialized :: "Firestore option \<Rightarrow> AuthState \<Rightarrow> bool \<times> AuthState" where
  "isFirestoreInitialized db st =
     (case db of
        None \<Rightarrow>
          (False,
           st\<lparr>diagnostics := diagnostics st @
                 [Toast ''Firestore Error''
                    ''Firestore database is not properly initialized. Check your environment variables.''],
               firestoreError := Some ''Firestore is not initialized. Check your environment variables.''\<rparr>)
      | Some _ \<Rightarrow> (True, st))"

subsection \<open>\<open>linkWalletToUser\<close>\<close>

text \<open>\<open>userData.walletAddresses || []\<close>.\<close>

definition orEmpty :: "string list option \<Rightarrow> string list" where
  "orEmpty ws = (case ws of None \<Rightarrow> [] | Some l \<Rightarrow> l)"

text \<open>
  The inner \<open>catch\<close> of \<open>linkWalletToUser\<close>: report the error, then add the address
  to the in-memory user unless it is already there.
\<close>

definition linkLocalOnly :: "FsError \<Rightarrow> UserData \<Rightarrow> string \<Rightarrow> AuthState \<Rightarrow> AuthState" where
  "linkLocalOnly e u walletAddress st =
     (let st1 = st\<lparr>diagnostics := diagnostics st @
                  [ConsoleError ''Error accessing Firestore, updating local state only:'']\<rparr>;
          st2 = snd (handleFirestoreError e st1);
          ws = orEmpty (walletAddresses u)
      in if walletAddress \<notin> set ws
         then st2\<lparr>user := Some (u\<lparr>walletAddresses := Some (ws @ [walletAddress])\<rparr>)\<rparr>
         else st2)"

text \<open>
  \<open>linkWalletToUser(walletAddress)\<close>, called in a render whose state is \<open>st\<close>, with
  the store handle \<open>db\<close> and the clock reading \<open>now\<close> that stamps a new document.
  The result is what the promise settles to (\<open>Inl\<close> a thrown error), the new provider
  state and the store afterwards. Errors of the store carry a message string, so the
  inner handler itself does not throw and the outer \<open>catch\<close> is never entered.
\<close>

definition linkWalletToUser ::
  "Firestore option \<Rightarrow> string \<Rightarrow> AuthState \<Rightarrow> string \<Rightarrow> (JsError + unit) \<times> AuthState \<times> Firestore option"
where
  "linkWalletToUser db now st walletAddress =
     (case db of
        None \<Rightarrow> (Inl (Error ''Firestore is not initialized''), snd (isFirestoreInitialized db st), db)
      | Some fs \<Rightarrow>
          (case user st of
             None \<Rightarrow> (Inl NotAuthenticated, st, db)
           | Some u \<Rightarrow>
               (case getDoc fs (uid u) of
                  (Inl e, fs1) \<Rightarrow> (Inr (), linkLocalOnly e u walletAddress st, Some fs1)
                | (Inr (Some userData), fs1) \<Rightarrow>
                    (let ws = orEmpty (doc_walletAddresses userData)
                     in if walletAddress \<notin> set ws then
                          (case updateDoc fs1 (uid u) (ws @ [walletAddress]) of
                             (Inl e, fs2) \<Rightarrow> (Inr (), linkLocalOnly e u walletAddress st, Some fs2)
                           | (Inr _, fs2) \<Rightarrow>
                               (Inr (),
                                st\<lparr>user := Some (u\<lparr>walletAddresses := Some (ws @ [walletAddress])\<rparr>)\<rparr>,
                                Some fs2))
                        else (Inr (), st, Some fs1))
                | (Inr None, fs1) \<Rightarrow>
                    (let userData = \<lparr>doc_uid = uid u, doc_email = email u,
                                     doc_displayName = displayName u, doc_photoURL = photoURL u,
                                     doc_walletAddresses = Some [walletAddress],
                                     doc_createdAt = Some now\<rparr>
                     in case setDoc fs1 (uid u) userData of
                          (Inl e, fs2) \<Rightarrow> (Inr (), linkLocalOnly e u walletAddress st, Some fs2)
                        | (Inr _, fs2) \<Rightarrow>
                            (Inr (),
                             st\<lparr>user := Some (u\<lparr>walletAddresses := Some [walletAddress]\<rparr>)\<rparr>,
                             Some fs2)))))"

subsection \<open>\<open>getUserWallets\<close>\<close>

definition getUserWallets :: "Firestore option \<Rightarrow> AuthState \<Rightarrow> string list \<times> AuthState \<times> Firestore option" where
  "getUserWallets db st =
     (case user st of
        None \<Rightarrow> ([], st, db)
      | Some u \<Rightarrow>
          if walletAddresses u \<noteq> None \<and> length (orEmpty (walletAddresses u)) > 0
          then (orEmpty (walletAddresses u), st, db)
          else
            (case db of
               None \<Rightarrow> ([], snd (isFirestoreInitialized db st), db)
             | Some fs \<Rightarrow>
                 (case getDoc fs (uid u) of
                    (Inl e, fs1) \<Rightarrow>
                      (orEmpty (walletAddresses u),
                       snd (handleFirestoreError e
                              (st\<lparr>diagnostics := diagnostics st @ [ConsoleError ''Error getting user wallets:'']\<rparr>)),
                       Some fs1)
                  | (Inr (Some userData), fs1) \<Rightarrow>
                      (let wallets = orEmpty (doc_walletAddresses userData)
                       in (wallets,
                           (if length wallets > 0 \<and> walletAddresses u = None
                            then st\<lparr>user := Some (u\<lparr>walletAddresses := Some wallets\<rparr>)\<rparr>
                            else st),
                           Some fs1))
                  | (Inr None, fs1) \<Rightarrow> ([], st, Some fs1))))"

text \<open>The linked-address list a store holds for a user (empty when there is no document).\<close>

definition persisted :: "Firestore option \<Rightarrow> string \<Rightarrow> string list" where
  "persisted db k =
     (case db of
        None \<Rightarrow> []
      | Some fs \<Rightarrow> (case docs fs k of None \<Rightarrow> [] | Some d \<Rightarrow> orEmpty (doc_walletAddresses d)))"

text \<open>The in-memory linked-address list of the Session User.\<close>

definition inMemory :: "AuthState \<Rightarrow> string list" where
  "inMemory st = (case user st of None \<Rightarrow> [] | Some u \<Rightarrow> orEmpty (walletAddresses u))"

section \<open>Wallet Session Adapter: \<open>Web3Provider\<close>\<close>

subsection \<open>State and environment\<close>

text \<open>What the wallet extension or the client library throws: an optional numeric code.\<close>

record RpcError =
  rpc_code :: "int option"
  rpc_message :: string

text \<open>
  Observable actions of the adapter: a call of \<open>refreshBalance\<close>, a request sent to
  the extension (for the accounts, or for the balance of an address), an error
  written to the console, and an error with which a promise of the adapter rejects.
\<close>

datatype web3_action =
    CallRefreshBalance
  | RequestAccounts
  | RequestBalance string
  | LogError string
  | Rejected JsError

text \<open>
  The React state of \<open>Web3Provider\<close> (\<open>provider\<close> records whether a client-library
  provider object has been stored), with the actions performed so far.
\<close>

record Web3State =
  account :: string
  balance :: string
  isConnected :: bool
  isConnecting :: bool
  provider :: bool
  actions :: "web3_action list"

text \<open>
  The browser environment: whether \<open>window.ethereum.isMetaMask\<close> holds, whether the
  client library offers one of the two provider classes, and the library's
  \<open>formatEther\<close>. What the extension and the chain answer to a request is not
  fixed here: an answer arrives later, as an event.
\<close>

record Wallet =
  installed :: bool
  ethersSupported :: bool
  formatEther :: "nat \<Rightarrow> string"

text \<open>\<open>useState("")\<close>, \<open>useState("0")\<close>, \<open>useState(false)\<close>, \<open>useState(false)\<close>, \<open>useState(null)\<close>.\<close>

definition initialWeb3 :: Web3State where
  "initialWeb3 = \<lparr>account = '''', balance = ''0'', isConnected = False,
                   isConnecting = False, provider = False, actions = []\<rparr>"

subsection \<open>Asynchronous functions, cut at their \<open>await\<close>s\<close>

text \<open>
  An \<open>async\<close> function runs until its next \<open>await\<close> and resumes when the awaited
  request is answered; anything else may happen in between. Each function is
  therefore a start, which updates the state and may leave a pending task, and a
  continuation for each task, run when the answer arrives. A task carries what the
  continuation needs of its closure.

  A function created in a render reads the state variables of that render, which are
  constants of its closure; a \<open>setX\<close> call only takes effect in the state that the
  next render sees.
\<close>

datatype task =
    InitAccounts
  | InitBalance string
  | ConnectAccounts bool string
  | ConnectBalance string
  | RefreshBalance string

text \<open>
  \<open>InitAccounts\<close>: \<open>initProvider\<close> awaits \<open>eth_accounts\<close>.
  \<open>InitBalance a\<close>: \<open>initProvider\<close> awaits the balance of \<open>a\<close>.
  \<open>ConnectAccounts p a\<close>: \<open>connectWallet\<close> awaits \<open>eth_requestAccounts\<close>; \<open>p\<close>
  and \<open>a\<close> are the \<open>provider\<close> and \<open>account\<close> of the render it was created in.
  \<open>ConnectBalance a\<close>: \<open>connectWallet\<close> awaits its \<open>refreshBalance()\<close>, which
  awaits the balance of \<open>a\<close>.
  \<open>RefreshBalance a\<close>: a \<open>refreshBalance()\<close> that its caller did not await (the
  listener's, or the refresh button's) awaits the balance of \<open>a\<close>.
\<close>

text \<open>
  \<open>refreshBalance\<close> up to its \<open>await\<close>: with the \<open>provider\<close> and \<open>account\<close>
  of its closure, it returns at once or requests the balance of that account. The
  result names the address requested, if any.
\<close>

definition refreshBalance_start :: "bool \<Rightarrow> string \<Rightarrow> Web3State \<Rightarrow> Web3State \<times> string option" where
  "refreshBalance_start prov acct cur =
     (let cur1 = cur\<lparr>actions := actions cur @ [CallRefreshBalance]\<rparr>
      in if \<not> prov \<or> acct = '''' then (cur1, None)
         else (cur1\<lparr>actions := actions cur1 @ [RequestBalance acct]\<rparr>, Some acct))"

text \<open>
  \<open>refreshBalance\<close> after its \<open>await\<close>: \<open>setBalance(formatEther(ethBalance))\<close>, or
  the error logged by both \<open>catch\<close> blocks and thrown again.
\<close>

definition refreshBalance_settle :: "Wallet \<Rightarrow> RpcError + nat \<Rightarrow> Web3State \<Rightarrow> Web3State" where
  "refreshBalance_settle w answer st =
     (case answer of
        Inl e \<Rightarrow> st\<lparr>actions := actions st @
                       [LogError ''Failed to fetch balance'', LogError ''Failed to fetch balance'']\<rparr>
      | Inr ethBalance \<Rightarrow> st\<lparr>balance := formatEther w ethBalance\<rparr>)"

text \<open>\<open>initProvider\<close>, the effect that runs once after the first render, up to its first \<open>await\<close>.\<close>

definition initProvider_start :: "Wallet \<Rightarrow> Web3State \<Rightarrow> Web3State \<times> task list" where
  "initProvider_start w st =
     (if installed w then
        (if \<not> ethersSupported w
         then (st\<lparr>actions := actions st @ [LogError ''Unsupported ethers.js version'']\<rparr>, [])
         else (st\<lparr>provider := True, actions := actions st @ [RequestAccounts]\<rparr>, [InitAccounts]))
      else (st, []))"

text \<open>\<open>initProvider\<close> when \<open>eth_accounts\<close> is answered.\<close>

definition initProvider_accounts :: "RpcError + string list \<Rightarrow> Web3State \<Rightarrow> Web3State \<times> task list" where
  "initProvider_accounts answer st =
     (case answer of
        Inl e \<Rightarrow> (st\<lparr>actions := actions st @ [LogError ''Failed to get accounts'']\<rparr>, [])
      | Inr accounts \<Rightarrow>
          if length accounts > 0 then
            (st\<lparr>account := hd accounts, isConnected := True,
                actions := actions st @ [RequestBalance (hd accounts)]\<rparr>,
             [InitBalance (hd accounts)])
          else (st, []))"

text \<open>\<open>initProvider\<close> when the balance is answered.\<close>

definition initProvider_balance :: "Wallet \<Rightarrow> RpcError + nat \<Rightarrow> Web3State \<Rightarrow> Web3State" where
  "initProvider_balance w answer st =
     (case answer of
        Inl e \<Rightarrow> st\<lparr>balance := ''0'', actions := actions st @ [LogError ''Failed to get balance'']\<rparr>
      | Inr ethBalance \<Rightarrow> st\<lparr>balance := formatEther w ethBalance\<rparr>)"

text \<open>
  \<open>handleAccountsChanged\<close>, the listener of the extension's \<open>accountsChanged\<close> event.
  The listener is registered again whenever \<open>account\<close> changes, so the account of its
  closure is the current one, and so is the provider whenever an account is held. The
  \<open>refreshBalance\<close> it calls belongs to the same render, and is not awaited: the
  read it starts stays pending.
\<close>

definition handleAccountsChanged :: "string list \<Rightarrow> Web3State \<Rightarrow> Web3State \<times> task list" where
  "handleAccountsChanged accounts st =
     (if length accounts = 0 then
        (st\<lparr>account := '''', balance := ''0'', isConnected := False\<rparr>, [])
      else if hd accounts \<noteq> account st then
        (case refreshBalance_start (provider st) (account st)
                (st\<lparr>account := hd accounts, isConnected := True\<rparr>) of
           (st', None) \<Rightarrow> (st', [])
         | (st', Some a) \<Rightarrow> (st', [RefreshBalance a]))
      else (st, []))"

text \<open>The error that \<open>connectWallet\<close> rethrows from its \<open>catch\<close>.\<close>

definition connectError :: "RpcError \<Rightarrow> JsError" where
  "connectError e =
     (if rpc_code e = Some 4001 then Error ''User rejected the connection request''
      else Error ''Failed to connect to MetaMask'')"

text \<open>\<open>connectWallet\<close> up to its first \<open>await\<close>.\<close>

definition connectWallet_start :: "Wallet \<Rightarrow> Web3State \<Rightarrow> Web3State \<times> task list" where
  "connectWallet_start w st =
     (if \<not> installed w then
        (st\<lparr>actions := actions st @
               [Rejected (Error ''MetaMask is not installed. Please install MetaMask to continue.'')]\<rparr>, [])
      else
        (st\<lparr>isConnecting := True, actions := actions st @ [RequestAccounts]\<rparr>,
         [ConnectAccounts (provider st) (account st)]))"

text \<open>
  \<open>connectWallet\<close> when \<open>eth_requestAccounts\<close> is answered: it stores the first
  account and calls the \<open>refreshBalance\<close> of its own render.
\<close>

definition connectWallet_accounts ::
  "bool \<Rightarrow> string \<Rightarrow> RpcError + string list \<Rightarrow> Web3State \<Rightarrow> Web3State \<times> task list"
where
  "connectWallet_accounts prov acct answer st =
     (case answer of
        Inl e \<Rightarrow>
          (st\<lparr>isConnecting := False, actions := actions st @ [Rejected (connectError e)]\<rparr>, [])
      | Inr accounts \<Rightarrow>
          if length accounts > 0 then
            (case refreshBalance_start prov acct (st\<lparr>account := hd accounts, isConnected := True\<rparr>) of
               (st', None) \<Rightarrow> (st'\<lparr>isConnecting := False\<rparr>, [])
             | (st', Some a) \<Rightarrow> (st', [ConnectBalance a]))
          else (st\<lparr>isConnecting := False\<rparr>, []))"

text \<open>\<open>connectWallet\<close> when the balance read of its \<open>refreshBalance()\<close> is answered.\<close>

definition connectWallet_balance :: "Wallet \<Rightarrow> RpcError + nat \<Rightarrow> Web3State \<Rightarrow> Web3State" where
  "connectWallet_balance w answer st =
     (let st' = refreshBalance_settle w answer st
      in case answer of
           Inl e \<Rightarrow> st'\<lparr>isConnecting := False, actions := actions st' @ [Rejected (connectError e)]\<rparr>
         | Inr _ \<Rightarrow> st'\<lparr>isConnecting := False\<rparr>)"

definition disconnectWallet :: "Web3State \<Rightarrow> Web3State" where
  "disconnectWallet st = st\<lparr>account := '''', balance := ''0'', isConnected := False\<rparr>"

subsection \<open>The adapter as a transition system\<close>

text \<open>The adapter between two events: its React state and the requests not yet answered.\<close>

record Adapter =
  ui :: Web3State
  pending :: "task list"

text \<open>
  What can happen: the mount (which starts \<open>initProvider\<close>), a click on connect, a
  call of \<open>disconnectWallet\<close>, a click on the refresh button, an \<open>accountsChanged\<close>
  notification, and the answer to the \<open>k\<close>-th pending request, which is a list of
  accounts or a balance, or an error.
\<close>

datatype w3event =
    Mount
  | ConnectClick
  | DisconnectCall
  | RefreshClick
  | AccountsChanged "string list"
  | AccountsArrive nat "RpcError + string list"
  | BalanceArrives nat "RpcError + nat"

definition without :: "nat \<Rightarrow> 'a list \<Rightarrow> 'a list" where
  "without k xs = take k xs @ drop (Suc k) xs"

text \<open>The state after a start, with the tasks it left added to the pending ones.\<close>

definition started :: "Adapter \<Rightarrow> Web3State \<times> task list \<Rightarrow> Adapter" where
  "started ad r = \<lparr>ui = fst r, pending = pending ad @ snd r\<rparr>"

text \<open>The state after the continuation of the \<open>k\<close>-th task, which is no longer pending.\<close>

definition resumed :: "Adapter \<Rightarrow> nat \<Rightarrow> Web3State \<times> task list \<Rightarrow> Adapter" where
  "resumed ad k r = \<lparr>ui = fst r, pending = without k (pending ad) @ snd r\<rparr>"

text \<open>
  One event. An answer that does not match a pending request changes nothing. The
  refresh button calls the \<open>refreshBalance\<close> of the current render.
\<close>

fun w3step :: "Wallet \<Rightarrow> Adapter \<Rightarrow> w3event \<Rightarrow> Adapter" where
  "w3step w ad Mount = started ad (initProvider_start w (ui ad))"
| "w3step w ad ConnectClick = started ad (connectWallet_start w (ui ad))"
| "w3step w ad DisconnectCall = ad\<lparr>ui := disconnectWallet (ui ad)\<rparr>"
| "w3step w ad RefreshClick =
     (case refreshBalance_start (provider (ui ad)) (account (ui ad)) (ui ad) of
        (st', None) \<Rightarrow> ad\<lparr>ui := st'\<rparr>
      | (st', Some a) \<Rightarrow> started ad (st', [RefreshBalance a]))"
| "w3step w ad (AccountsChanged accounts) = started ad (handleAccountsChanged accounts (ui ad))"
| "w3step w ad (AccountsArrive k answer) =
     (if k < length (pending ad) then
        (case pending ad ! k of
           InitAccounts \<Rightarrow> resumed ad k (initProvider_accounts answer (ui ad))
         | ConnectAccounts prov acct \<Rightarrow> resumed ad k (connectWallet_accounts prov acct answer (ui ad))
         | _ \<Rightarrow> ad)
      else ad)"
| "w3step w ad (BalanceArrives k answer) =
     (if k < length (pending ad) then
        (case pending ad ! k of
           InitBalance a \<Rightarrow> resumed ad k (initProvider_balance w answer (ui ad), [])
         | ConnectBalance a \<Rightarrow> resumed ad k (connectWallet_balance w answer (ui ad), [])
         | RefreshBalance a \<Rightarrow> resumed ad k (refreshBalance_settle w answer (ui ad), [])
         | _ \<Rightarrow> ad)
      else ad)"

definition w3run :: "Wallet \<Rightarrow> Adapter \<Rightarrow> w3event list \<Rightarrow> Adapter" where
  "w3run w ad evs = foldl (w3step w) ad evs"

text \<open>
  The invariant of the Wallet Connection State, in its two parts: connected exactly
  when an address is held, and a zero balance whenever disconnected.
\<close>

definition flag_inv :: "Web3State \<Rightarrow> bool" where
  "flag_inv st \<longleftrightarrow> (isConnected st \<longleftrightarrow> account st \<noteq> '''')"

definition connection_inv :: "Web3State \<Rightarrow> bool" where
  "connection_inv st \<longleftrightarrow> flag_inv st \<and> (\<not> isConnected st \<longrightarrow> balance st = ''0'')"

text \<open>An address list as the extension reports it: no entry is the empty string.\<close>

fun wellformed_event :: "w3event \<Rightarrow> bool" where
  "wellformed_event (AccountsChanged accounts) = list_all (\<lambda>a. a \<noteq> '''') accounts"
| "wellformed_event (AccountsArrive k (Inr accounts)) = list_all (\<lambda>a. a \<noteq> '''') accounts"
| "wellformed_event _ = True"

text \<open>The events that complete a balance read.\<close>

fun balance_arrival :: "w3event \<Rightarrow> bool" where
  "balance_arrival (BalanceArrives k answer) = True"
| "balance_arrival _ = False"

section \<open>Account Linkage Flow: the dashboard effect\<close>

text \<open>
  The \<open>Dashboard\<close> component as far as the linking effect goes: the values of the two
  contexts in its last render (\<open>isConnected\<close>, \<open>user\<close>, \<open>account\<close>), its own flag
  \<open>walletLinked\<close>, the calls of \<open>linkWalletToUser\<close> that have not settled yet and
  all calls made so far (each by its address, in order), and what it showed or logged.
\<close>

record Dashboard =
  ctxConnected :: bool
  ctxUser :: "UserData option"
  ctxAccount :: string
  walletLinked :: bool
  linkPending :: "string list"
  linkCalls :: "string list"
  dashDiagnostics :: "diagnostic list"

text \<open>\<open>useState(false)\<close>, before any context value has arrived.\<close>

definition mountedDashboard :: Dashboard where
  "mountedDashboard = \<lparr>ctxConnected = False, ctxUser = None, ctxAccount = '''', walletLinked = False,
                        linkPending = [], linkCalls = [], dashDiagnostics = []\<rparr>"

text \<open>
  \<open>linkWalletIfConnected\<close> up to its \<open>await\<close>: the body of the effect with
  dependencies \<open>[isConnected, user, account, linkWalletToUser, walletLinked, toast]\<close>.
  Under the guard it calls \<open>linkWalletToUser(account)\<close>, and the call stays pending.
\<close>

definition linkWalletIfConnected :: "Dashboard \<Rightarrow> Dashboard" where
  "linkWalletIfConnected d =
     (if ctxConnected d \<and> ctxUser d \<noteq> None \<and> \<not> walletLinked d then
        d\<lparr>linkPending := linkPending d @ [ctxAccount d], linkCalls := linkCalls d @ [ctxAccount d]\<rparr>
      else d)"

text \<open>
  \<open>linkWalletIfConnected\<close> after its \<open>await\<close>: when the call resolved,
  \<open>setWalletLinked(true)\<close> and the toast; when it rejected, the error is logged.
\<close>

definition linkWalletSettled :: "JsError + unit \<Rightarrow> Dashboard \<Rightarrow> Dashboard" where
  "linkWalletSettled outcome d =
     (case outcome of
        Inr _ \<Rightarrow> d\<lparr>walletLinked := True,
                   dashDiagnostics := dashDiagnostics d @
                     [Toast ''Wallet linked'' ''Your wallet has been linked to your account'']\<rparr>
      | Inl e \<Rightarrow> d\<lparr>dashDiagnostics := dashDiagnostics d @ [ConsoleError ''Error linking wallet:'']\<rparr>)"

text \<open>
  What can happen while the dashboard stays mounted. \<open>ContextChanged c u a\<close>: a render
  with the context values \<open>c\<close>, \<open>u\<close>, \<open>a\<close> for \<open>isConnected\<close>, \<open>user\<close> and
  \<open>account\<close>; this covers every change of the wallet adapter and of the
  authentication provider (sign-in, profile enrichment, \<open>setUser\<close> by a link call,
  a balance refresh, a new identity of \<open>linkWalletToUser\<close>), also with values that
  did not change. \<open>LinkSettled k outcome\<close>: the \<open>k\<close>-th pending call of
  \<open>linkWalletToUser\<close> settles.
\<close>

datatype dash_event =
    ContextChanged bool "UserData option" string
  | LinkSettled nat "JsError + unit"

text \<open>
  One event, followed by the run of the effect when the render changed a dependency
  (after a rejected call nothing is set, so nothing runs).
\<close>

fun dstep :: "Dashboard \<Rightarrow> dash_event \<Rightarrow> Dashboard" where
  "dstep d (ContextChanged c u a) =
     linkWalletIfConnected (d\<lparr>ctxConnected := c, ctxUser := u, ctxAccount := a\<rparr>)"
| "dstep d (LinkSettled k outcome) =
     (if k < length (linkPending d) then
        (let d' = linkWalletSettled outcome (d\<lparr>linkPending := without k (linkPending d)\<rparr>)
         in case outcome of Inr _ \<Rightarrow> linkWalletIfConnected d' | Inl e \<Rightarrow> d')
      else d)"

definition drun :: "Dashboard \<Rightarrow> dash_event list \<Rightarrow> Dashboard" where
  "drun d evs = foldl dstep d evs"

section \<open>Amount conversion of \<open>sendTransaction\<close>\<close>

subsection \<open>Decimal amount strings\<close>





subsection \<open>The Number type\<close>









subsection \<open>Hexadecimal strings\<close>









subsection \<open>\<open>parseEther\<close> and the value of the request\<close>

text \<open>
  The client library as the compatibility helpers find it: version 5 (\<open>ethers.utils\<close>),
  version 6 (functions on \<open>ethers\<close> itself), or neither. A library comes with its own
  \<open>parseEther\<close>, which returns an integer of base units or throws (\<open>None\<close>).
\<close>

datatype ethers =
    EthersV5 "string \<Rightarrow> nat option"
  | EthersV6 "string \<Rightarrow> nat option"
  | NoHelper






section \<open>Sequencing and example states\<close>

text \<open>A second call of \<open>linkWalletToUser\<close>, in the state and store that a first call left.\<close>

definition linkThen ::
  "(JsError + unit) \<times> AuthState \<times> Firestore option \<Rightarrow> string \<Rightarrow> string \<Rightarrow>
   (JsError + unit) \<times> AuthState \<times> Firestore option"
where
  "linkThen res now walletAddress = linkWalletToUser (snd (snd res)) now (fst (snd res)) walletAddress"

text \<open>A user \<open>u1\<close> as the sign-in code first builds it: no linked-address list yet.\<close>

definition u1 :: UserData where
  "u1 = \<lparr>uid = ''u1'', email = Some ''u1@example.org'', displayName = Some ''User One'',
         photoURL = None, walletAddresses = None\<rparr>"

definition signedIn :: "UserData \<Rightarrow> AuthState" where
  "signedIn u = \<lparr>user = Some u, firestoreError = None, diagnostics = []\<rparr>"

definition signedOut :: AuthState where
  "signedOut = \<lparr>user = None, firestoreError = None, diagnostics = []\<rparr>"

text \<open>A store in which the only document is that of \<open>u1\<close>, listing \<open>ws\<close>.\<close>

definition profile :: "string list \<Rightarrow> UserDoc" where
  "profile ws = \<lparr>doc_uid = ''u1'', doc_email = Some ''u1@example.org'',
                  doc_displayName = Some ''User One'', doc_photoURL = None,
                  doc_walletAddresses = Some ws, doc_createdAt = Some ''2024-01-01T00:00:00.000Z''\<rparr>"

definition emptyStore :: Firestore where
  "emptyStore = \<lparr>docs = Map.empty, readFault = None, writeFault = None, requests = []\<rparr>"

definition storeWith :: "string list \<Rightarrow> Firestore" where
  "storeWith ws = emptyStore\<lparr>docs := [''u1'' \<mapsto> profile ws]\<rparr>"

definition permissionDenied :: FsError where
  "permissionDenied = \<lparr>code = ''permission-denied'', message = ''Missing or insufficient permissions.''\<rparr>"

text \<open>A browser with the extension and a supported client library.\<close>

definition metamask :: Wallet where
  "metamask = \<lparr>installed = True, ethersSupported = True,
                formatEther = (\<lambda>v. if v = 1000000000000000000 then ''1.0'' else ''0.0'')\<rparr>"

text \<open>A connected adapter holding the account \<open>0xAAA\<close>, with no request pending.\<close>

definition connectedAAA :: Adapter where
  "connectedAAA = \<lparr>ui = \<lparr>account = ''0xAAA'', balance = ''1.0'', isConnected = True,
                          isConnecting = False, provider = True, actions = []\<rparr>,
                    pending = []\<rparr>"

text \<open>An adapter after initialisation without an account, with no request pending.\<close>

definition disconnected :: Adapter where
  "disconnected = \<lparr>ui = initialWeb3\<lparr>provider := True\<rparr>, pending = []\<rparr>"

section \<open>Properties of the linked-wallet operations\<close>

subsection \<open>Auxiliary facts\<close>

lemma handleFirestoreError_user: "user (snd (handleFirestoreError e st)) = user st"
  by (simp add: handleFirestoreError_def Let_def)

lemma handleFirestoreError_diagnostics:
  "\<exists>msg. diagnostics (snd (handleFirestoreError e st)) =
      diagnostics st @ [ConsoleError ''Firestore Error:'', Toast ''Database Error'' msg]"
  by (simp add: handleFirestoreError_def Let_def)

lemma linkLocalOnly_inMemory:
  "user st = Some u \<Longrightarrow>
   inMemory (linkLocalOnly e u w st) = (if w \<in> set (inMemory st) then inMemory st else inMemory st @ [w])"
  by (simp add: linkLocalOnly_def inMemory_def Let_def orEmpty_def handleFirestoreError_user)

lemma linkLocalOnly_diagnostics:
  "\<exists>msg. diagnostics (linkLocalOnly e u w st) =
      diagnostics st @ [ConsoleError ''Error accessing Firestore, updating local state only:'',
                        ConsoleError ''Firestore Error:'', Toast ''Database Error'' msg]"
proof -
  let ?st1 = "st\<lparr>diagnostics := diagnostics st @
                  [ConsoleError ''Error accessing Firestore, updating local state only:'']\<rparr>"
  obtain msg where m: "diagnostics (snd (handleFirestoreError e ?st1)) =
      diagnostics ?st1 @ [ConsoleError ''Firestore Error:'', Toast ''Database Error'' msg]"
    using handleFirestoreError_diagnostics by blast
  have "diagnostics (linkLocalOnly e u w st) = diagnostics (snd (handleFirestoreError e ?st1))"
    by (simp add: linkLocalOnly_def Let_def)
  with m show ?thesis by simp
qed

lemma link_listed:
  assumes "user st = Some u" "readFault fs = None" "w \<in> set (persisted (Some fs) (uid u))"
  shows "linkWalletToUser (Some fs) now st w =
           (Inr (), st, Some (fs\<lparr>requests := requests fs @ [GetDoc (uid u)]\<rparr>))"
  using assms
  by (auto simp add: linkWalletToUser_def getDoc_def persisted_def split: option.splits)

lemma link_fresh:
  assumes "user st = Some u" "readFault fs = None" "writeFault fs = None"
    and "w \<notin> set (persisted (Some fs) (uid u))"
  shows "\<exists>fs'. linkWalletToUser (Some fs) now st w =
           (Inr (), st\<lparr>user := Some (u\<lparr>walletAddresses := Some (persisted (Some fs) (uid u) @ [w])\<rparr>)\<rparr>,
            Some fs') \<and>
          readFault fs' = None \<and> writeFault fs' = None \<and>
          persisted (Some fs') (uid u) = persisted (Some fs) (uid u) @ [w]"
  using assms
  by (auto simp add: linkWalletToUser_def getDoc_def updateDoc_def setDoc_def persisted_def orEmpty_def
       split: option.splits)

lemma link_fault:
  assumes "user st = Some u"
    and "readFault fs \<noteq> None \<or> (writeFault fs \<noteq> None \<and> w \<notin> set (persisted (Some fs) (uid u)))"
  shows "\<exists>fs' e. linkWalletToUser (Some fs) now st w = (Inr (), linkLocalOnly e u w st, Some fs') \<and>
          docs fs' = docs fs"
  using assms(2)
  by (auto simp add: linkWalletToUser_def getDoc_def updateDoc_def setDoc_def persisted_def assms(1) Let_def
       split: option.splits)

lemma link_succeeds:
  assumes "user st = Some u"
  shows "\<exists>st' fs'. linkWalletToUser (Some fs) now st w = (Inr (), st', Some fs') \<and> user st' \<noteq> None"
proof (cases "readFault fs \<noteq> None \<or> (writeFault fs \<noteq> None \<and> w \<notin> set (persisted (Some fs) (uid u)))")
  case True
  then obtain fs' e where "linkWalletToUser (Some fs) now st w = (Inr (), linkLocalOnly e u w st, Some fs')"
    using link_fault [OF assms] by blast
  moreover have "user (linkLocalOnly e u w st) \<noteq> None"
    by (simp add: linkLocalOnly_def Let_def handleFirestoreError_user assms)
  ultimately show ?thesis by blast
next
  case False
  then have r: "readFault fs = None" by simp
  show ?thesis
  proof (cases "w \<in> set (persisted (Some fs) (uid u))")
    case True
    then show ?thesis using link_listed [OF assms r True] assms by simp
  next
    case nin: False
    with False have "writeFault fs = None" by simp
    then show ?thesis using link_fresh [OF assms r _ nin, of now] by auto
  qed
qed

subsection \<open>Linking and listing wallets\<close>

text \<open>
  Claim C1, as the code has it. When the persisted document of the user already lists
  the address and the read succeeds, \<open>linkWalletToUser\<close> returns success, sends no
  write (the only request is the read) and leaves the provider state as it was: also
  the in-memory list, whatever it holds. When the document does not list the address
  (or there is no document) and the store accepts the write, a second call with the
  same address is such a no-op, and after the two calls the address occurs exactly once
  in the persisted list and exactly once in the in-memory list.
\<close>

theorem link_idempotent:
  assumes "user st = Some u" "readFault fs = None"
  shows "(w \<in> set (persisted (Some fs) (uid u)) \<longrightarrow>
            linkWalletToUser (Some fs) now st w =
              (Inr (), st, Some (fs\<lparr>requests := requests fs @ [GetDoc (uid u)]\<rparr>))) \<and>
         (w \<notin> set (persisted (Some fs) (uid u)) \<and> writeFault fs = None \<longrightarrow>
            fst (linkWalletToUser (Some fs) now st w) = Inr () \<and>
            linkThen (linkWalletToUser (Some fs) now st w) now' w =
              (Inr (), fst (snd (linkWalletToUser (Some fs) now st w)),
               map_option (\<lambda>fs'. fs'\<lparr>requests := requests fs' @ [GetDoc (uid u)]\<rparr>)
                 (snd (snd (linkWalletToUser (Some fs) now st w)))) \<and>
            count_list (persisted (snd (snd (linkThen (linkWalletToUser (Some fs) now st w) now' w))) (uid u)) w = 1 \<and>
            count_list (inMemory (fst (snd (linkThen (linkWalletToUser (Some fs) now st w) now' w)))) w = 1)"
proof (intro conjI impI)
  assume "w \<in> set (persisted (Some fs) (uid u))"
  then show "linkWalletToUser (Some fs) now st w =
              (Inr (), st, Some (fs\<lparr>requests := requests fs @ [GetDoc (uid u)]\<rparr>))"
    by (rule link_listed [OF assms])
next
  assume a: "w \<notin> set (persisted (Some fs) (uid u)) \<and> writeFault fs = None"
  let ?old = "persisted (Some fs) (uid u)"
  let ?st1 = "st\<lparr>user := Some (u\<lparr>walletAddresses := Some (?old @ [w])\<rparr>)\<rparr>"
  obtain fs' where 1: "linkWalletToUser (Some fs) now st w = (Inr (), ?st1, Some fs')"
    and f: "readFault fs' = None" and p: "persisted (Some fs') (uid u) = ?old @ [w]"
    using link_fresh [OF assms, of w now] a by auto
  have u1: "user ?st1 = Some (u\<lparr>walletAddresses := Some (?old @ [w])\<rparr>)" by simp
  have inp: "w \<in> set (persisted (Some fs') (uid (u\<lparr>walletAddresses := Some (?old @ [w])\<rparr>)))"
    using p by simp
  have 2: "linkThen (linkWalletToUser (Some fs) now st w) now' w =
        (Inr (), ?st1, Some (fs'\<lparr>requests := requests fs' @ [GetDoc (uid u)]\<rparr>))"
    using link_listed [OF u1 f inp, of now'] by (simp add: linkThen_def 1)
  have cnt: "count_list (?old @ [w]) w = 1" using a by (simp add: count_list_0_iff)
  show "fst (linkWalletToUser (Some fs) now st w) = Inr ()" by (simp add: 1)
  show "linkThen (linkWalletToUser (Some fs) now st w) now' w =
              (Inr (), fst (snd (linkWalletToUser (Some fs) now st w)),
               map_option (\<lambda>fs'. fs'\<lparr>requests := requests fs' @ [GetDoc (uid u)]\<rparr>)
                 (snd (snd (linkWalletToUser (Some fs) now st w))))"
    unfolding 2 by (simp add: 1)
  have "persisted (Some (fs'\<lparr>requests := requests fs' @ [GetDoc (uid u)]\<rparr>)) (uid u) = ?old @ [w]"
    using p by (simp add: persisted_def)
  then show "count_list (persisted (snd (snd (linkThen (linkWalletToUser (Some fs) now st w) now' w))) (uid u)) w = 1"
    using cnt by (simp add: 2)
  show "count_list (inMemory (fst (snd (linkThen (linkWalletToUser (Some fs) now st w) now' w)))) w = 1"
    using cnt by (simp add: 2 inMemory_def orEmpty_def)
qed


lemmas example_defs = signedIn_def signedOut_def u1_def storeWith_def emptyStore_def profile_def
  permissionDenied_def

lemmas link_defs = linkWalletToUser_def linkThen_def getDoc_def updateDoc_def setDoc_def
  persisted_def inMemory_def orEmpty_def isFirestoreInitialized_def

theorem link_idempotent_witness:
  "user (signedIn u1) = Some u1 \<and> readFault (storeWith []) = None \<and> writeFault (storeWith []) = None \<and>
   ''0xAAA'' \<notin> set (persisted (Some (storeWith [])) (uid u1)) \<and>
   ''0xAAA'' \<in> set (persisted (Some (storeWith [''0xAAA''])) (uid u1)) \<and>
   fst (snd (linkWalletToUser (Some (storeWith [''0xAAA''])) ''t1'' (signedIn u1) ''0xAAA'')) = signedIn u1 \<and>
   count_list (persisted (snd (snd (linkThen (linkWalletToUser (Some (storeWith [])) ''t1'' (signedIn u1) ''0xAAA'')
                                      ''t2'' ''0xAAA''))) (uid u1)) ''0xAAA'' = 1 \<and>
   count_list (inMemory (fst (snd (linkThen (linkWalletToUser (Some (storeWith [])) ''t1'' (signedIn u1) ''0xAAA'')
                                      ''t2'' ''0xAAA'')))) ''0xAAA'' = 1"
proof -
  have h: "user (signedIn u1) = Some u1" "readFault (storeWith []) = None"
    "readFault (storeWith [''0xAAA'']) = None"
    by (simp_all add: example_defs)
  have f: "''0xAAA'' \<notin> set (persisted (Some (storeWith [])) (uid u1)) \<and> writeFault (storeWith []) = None"
    by (simp add: example_defs persisted_def orEmpty_def)
  have l: "''0xAAA'' \<in> set (persisted (Some (storeWith [''0xAAA''])) (uid u1))"
    by (simp add: example_defs persisted_def orEmpty_def)
  note fresh = link_idempotent [OF h(1) h(2), of "''0xAAA''" "''t1''" "''t2''"]
  note listed = link_idempotent [OF h(1) h(3), of "''0xAAA''" "''t1''" "''t2''"]
  from fresh f have c:
    "count_list (persisted (snd (snd (linkThen (linkWalletToUser (Some (storeWith [])) ''t1'' (signedIn u1) ''0xAAA'')
                                      ''t2'' ''0xAAA''))) (uid u1)) ''0xAAA'' = 1"
    "count_list (inMemory (fst (snd (linkThen (linkWalletToUser (Some (storeWith [])) ''t1'' (signedIn u1) ''0xAAA'')
                                      ''t2'' ''0xAAA'')))) ''0xAAA'' = 1"
    by blast+
  from listed l have
    "linkWalletToUser (Some (storeWith [''0xAAA''])) ''t1'' (signedIn u1) ''0xAAA'' =
       (Inr (), signedIn u1,
        Some ((storeWith [''0xAAA''])\<lparr>requests := requests (storeWith [''0xAAA'']) @ [GetDoc (uid u1)]\<rparr>))"
    by blast
  then have n: "fst (snd (linkWalletToUser (Some (storeWith [''0xAAA''])) ''t1'' (signedIn u1) ''0xAAA'')) = signedIn u1"
    by simp
  from h f l c n show ?thesis by blast
qed

theorem link_idempotent_counterexample:
  "''0xAAA'' \<in> set (persisted (Some (storeWith [''0xAAA''])) (uid u1)) \<and>
   fst (linkWalletToUser (Some (storeWith [''0xAAA''])) ''t1'' (signedIn u1) ''0xAAA'') = Inr () \<and>
   fst (linkThen (linkWalletToUser (Some (storeWith [''0xAAA''])) ''t1'' (signedIn u1) ''0xAAA'')
          ''t2'' ''0xAAA'') = Inr () \<and>
   count_list (inMemory (fst (snd (linkThen
       (linkWalletToUser (Some (storeWith [''0xAAA''])) ''t1'' (signedIn u1) ''0xAAA'')
       ''t2'' ''0xAAA'')))) ''0xAAA'' = 0"
  by (simp add: link_defs example_defs)

text \<open>
  Claim C2. If the read fails, or the read succeeds and the write that follows it fails,
  \<open>linkWalletToUser\<close> does not throw: it returns success, reports on the console and
  with a "Database Error" toast, leaves the documents of the store unchanged, and the
  in-memory list afterwards contains the address: appended if it was missing, the list
  unchanged if it was already there.
\<close>

theorem link_store_failure:
  assumes "user st = Some u"
    and "readFault fs \<noteq> None \<or> (writeFault fs \<noteq> None \<and> w \<notin> set (persisted (Some fs) (uid u)))"
  shows "fst (linkWalletToUser (Some fs) now st w) = Inr () \<and>
         (\<exists>msg. diagnostics (fst (snd (linkWalletToUser (Some fs) now st w))) =
            diagnostics st @ [ConsoleError ''Error accessing Firestore, updating local state only:'',
                              ConsoleError ''Firestore Error:'', Toast ''Database Error'' msg]) \<and>
         w \<in> set (inMemory (fst (snd (linkWalletToUser (Some fs) now st w)))) \<and>
         inMemory (fst (snd (linkWalletToUser (Some fs) now st w))) =
           (if w \<in> set (inMemory st) then inMemory st else inMemory st @ [w]) \<and>
         map_option docs (snd (snd (linkWalletToUser (Some fs) now st w))) = Some (docs fs)"
proof -
  obtain fs' e where r: "linkWalletToUser (Some fs) now st w = (Inr (), linkLocalOnly e u w st, Some fs')"
    and d: "docs fs' = docs fs"
    using link_fault [OF assms] by blast
  show ?thesis
    using linkLocalOnly_diagnostics [of e u w st] linkLocalOnly_inMemory [OF assms(1), of e w]
    by (simp add: r d)
qed

theorem link_store_failure_witness:
  "user (signedIn u1) = Some u1 \<and>
   readFault ((storeWith [])\<lparr>readFault := Some permissionDenied\<rparr>) \<noteq> None \<and>
   fst (linkWalletToUser (Some ((storeWith [])\<lparr>readFault := Some permissionDenied\<rparr>)) ''t1'' (signedIn u1) ''0xBBB'')
     = Inr () \<and>
   inMemory (fst (snd (linkWalletToUser (Some ((storeWith [])\<lparr>readFault := Some permissionDenied\<rparr>))
                         ''t1'' (signedIn u1) ''0xBBB''))) = [''0xBBB''] \<and>
   map_option docs (snd (snd (linkWalletToUser (Some ((storeWith [])\<lparr>readFault := Some permissionDenied\<rparr>))
                         ''t1'' (signedIn u1) ''0xBBB''))) = Some (docs (storeWith []))"
proof -
  have h1: "user (signedIn u1) = Some u1" by (simp add: example_defs)
  have h2: "readFault ((storeWith [])\<lparr>readFault := Some permissionDenied\<rparr>) \<noteq> None \<or>
     (writeFault ((storeWith [])\<lparr>readFault := Some permissionDenied\<rparr>) \<noteq> None \<and>
      ''0xBBB'' \<notin> set (persisted (Some ((storeWith [])\<lparr>readFault := Some permissionDenied\<rparr>)) (uid u1)))"
    by simp
  have m: "inMemory (signedIn u1) = []" by (simp add: example_defs inMemory_def orEmpty_def)
  show ?thesis
    using h1 link_store_failure [OF h1 h2, of "''t1''"] by (simp add: m)
qed

text \<open>
  Claim C4. For two different addresses that the persisted list of the user does not
  contain, linking the first and then the second against a store that succeeds gives the
  old persisted list followed by the first and then the second address, and the
  in-memory list is that same list.
\<close>

theorem link_two_addresses:
  assumes "A \<noteq> B" "user st = Some u" "readFault fs = None" "writeFault fs = None"
    and "A \<notin> set (persisted (Some fs) (uid u))" "B \<notin> set (persisted (Some fs) (uid u))"
  shows "fst (linkWalletToUser (Some fs) now st A) = Inr () \<and>
         fst (linkThen (linkWalletToUser (Some fs) now st A) now' B) = Inr () \<and>
         persisted (snd (snd (linkThen (linkWalletToUser (Some fs) now st A) now' B))) (uid u) =
           persisted (Some fs) (uid u) @ [A, B] \<and>
         inMemory (fst (snd (linkThen (linkWalletToUser (Some fs) now st A) now' B))) =
           persisted (Some fs) (uid u) @ [A, B]"
proof -
  let ?old = "persisted (Some fs) (uid u)"
  let ?u1 = "u\<lparr>walletAddresses := Some (?old @ [A])\<rparr>"
  obtain fs1 where 1: "linkWalletToUser (Some fs) now st A = (Inr (), st\<lparr>user := Some ?u1\<rparr>, Some fs1)"
    and f1: "readFault fs1 = None" "writeFault fs1 = None"
    and p1: "persisted (Some fs1) (uid u) = ?old @ [A]"
    using link_fresh [OF assms(2,3,4,5), of now] by auto
  have us: "user (st\<lparr>user := Some ?u1\<rparr>) = Some ?u1" by simp
  have nin: "B \<notin> set (persisted (Some fs1) (uid ?u1))" using assms(1,6) p1 by simp
  obtain fs2 where 2: "linkWalletToUser (Some fs1) now' (st\<lparr>user := Some ?u1\<rparr>) B =
       (Inr (), st\<lparr>user := Some ?u1, user := Some (?u1\<lparr>walletAddresses := Some (persisted (Some fs1) (uid ?u1) @ [B])\<rparr>)\<rparr>, Some fs2)"
    and p2: "persisted (Some fs2) (uid ?u1) = persisted (Some fs1) (uid ?u1) @ [B]"
    using link_fresh [OF us f1 nin, of now'] by auto
  show ?thesis
    using p1 p2 by (simp add: linkThen_def 1 2 inMemory_def orEmpty_def)
qed

theorem link_two_addresses_witness:
  "''0xAAA'' \<noteq> ''0xBBB'' \<and> user (signedIn u1) = Some u1 \<and>
   readFault (storeWith [''0xCCC'']) = None \<and> writeFault (storeWith [''0xCCC'']) = None \<and>
   ''0xAAA'' \<notin> set (persisted (Some (storeWith [''0xCCC''])) (uid u1)) \<and>
   ''0xBBB'' \<notin> set (persisted (Some (storeWith [''0xCCC''])) (uid u1)) \<and>
   persisted (snd (snd (linkThen (linkWalletToUser (Some (storeWith [''0xCCC''])) ''t1'' (signedIn u1) ''0xAAA'')
                          ''t2'' ''0xBBB''))) (uid u1) = [''0xCCC'', ''0xAAA'', ''0xBBB''] \<and>
   inMemory (fst (snd (linkThen (linkWalletToUser (Some (storeWith [''0xCCC''])) ''t1'' (signedIn u1) ''0xAAA'')
                          ''t2'' ''0xBBB''))) = [''0xCCC'', ''0xAAA'', ''0xBBB'']"
proof -
  have h: "''0xAAA'' \<noteq> ''0xBBB''" "user (signedIn u1) = Some u1"
    "readFault (storeWith [''0xCCC'']) = None" "writeFault (storeWith [''0xCCC'']) = None"
    "''0xAAA'' \<notin> set (persisted (Some (storeWith [''0xCCC''])) (uid u1))"
    "''0xBBB'' \<notin> set (persisted (Some (storeWith [''0xCCC''])) (uid u1))"
    by (simp_all add: example_defs persisted_def orEmpty_def)
  have p: "persisted (Some (storeWith [''0xCCC''])) (uid u1) = [''0xCCC'']"
    by (simp add: example_defs persisted_def orEmpty_def)
  show ?thesis
    using h link_two_addresses [OF h, of "''t1''" "''t2''"] by (simp add: p)
qed

lemma getUserWallets_returns:
  "(user st = None \<longrightarrow> getUserWallets db st = ([], st, db)) \<and>
   (user st = Some u \<and> inMemory st \<noteq> [] \<longrightarrow> getUserWallets db st = (inMemory st, st, db)) \<and>
   (user st = Some u \<and> inMemory st = [] \<and> db = None \<longrightarrow>
      fst (getUserWallets db st) = [] \<and> user (fst (snd (getUserWallets db st))) = user st \<and>
      snd (snd (getUserWallets db st)) = None) \<and>
   (user st = Some u \<and> inMemory st = [] \<and> db = Some fs \<and> readFault fs \<noteq> None \<longrightarrow>
      fst (getUserWallets db st) = [] \<and> user (fst (snd (getUserWallets db st))) = user st \<and>
      (\<exists>msg. diagnostics (fst (snd (getUserWallets db st))) =
         diagnostics st @ [ConsoleError ''Error getting user wallets:'',
                           ConsoleError ''Firestore Error:'', Toast ''Database Error'' msg]) \<and>
      snd (snd (getUserWallets db st)) = Some (fs\<lparr>requests := requests fs @ [GetDoc (uid u)]\<rparr>)) \<and>
   (user st = Some u \<and> inMemory st = [] \<and> db = Some fs \<and> readFault fs = None \<longrightarrow>
      fst (getUserWallets db st) = persisted db (uid u) \<and>
      snd (snd (getUserWallets db st)) = Some (fs\<lparr>requests := requests fs @ [GetDoc (uid u)]\<rparr>))"
proof (intro conjI impI)
  assume "user st = None"
  then show "getUserWallets db st = ([], st, db)" by (simp add: getUserWallets_def)
next
  assume "user st = Some u \<and> inMemory st \<noteq> []"
  then show "getUserWallets db st = (inMemory st, st, db)"
    by (auto simp add: getUserWallets_def inMemory_def orEmpty_def split: option.splits)
next
  assume a: "user st = Some u \<and> inMemory st = [] \<and> db = None"
  then have "getUserWallets db st = ([], snd (isFirestoreInitialized None st), None)"
    by (auto simp add: getUserWallets_def inMemory_def orEmpty_def split: option.splits)
  then show "fst (getUserWallets db st) = []" "user (fst (snd (getUserWallets db st))) = user st"
    "snd (snd (getUserWallets db st)) = None"
    by (simp_all add: isFirestoreInitialized_def)
next
  assume a: "user st = Some u \<and> inMemory st = [] \<and> db = Some fs \<and> readFault fs \<noteq> None"
  then obtain e where e: "readFault fs = Some e" by auto
  let ?st1 = "st\<lparr>diagnostics := diagnostics st @ [ConsoleError ''Error getting user wallets:'']\<rparr>"
  have r: "getUserWallets db st =
      ([], snd (handleFirestoreError e ?st1), Some (fs\<lparr>requests := requests fs @ [GetDoc (uid u)]\<rparr>))"
    using a e by (auto simp add: getUserWallets_def getDoc_def inMemory_def orEmpty_def split: option.splits)
  show "fst (getUserWallets db st) = []" by (simp add: r)
  show "user (fst (snd (getUserWallets db st))) = user st" by (simp add: r handleFirestoreError_user)
  show "\<exists>msg. diagnostics (fst (snd (getUserWallets db st))) =
         diagnostics st @ [ConsoleError ''Error getting user wallets:'',
                           ConsoleError ''Firestore Error:'', Toast ''Database Error'' msg]"
    using handleFirestoreError_diagnostics [of e ?st1] by (simp add: r)
  show "snd (snd (getUserWallets db st)) = Some (fs\<lparr>requests := requests fs @ [GetDoc (uid u)]\<rparr>)"
    by (simp add: r)
next
  assume a: "user st = Some u \<and> inMemory st = [] \<and> db = Some fs \<and> readFault fs = None"
  then show "fst (getUserWallets db st) = persisted db (uid u)"
    "snd (snd (getUserWallets db st)) = Some (fs\<lparr>requests := requests fs @ [GetDoc (uid u)]\<rparr>)"
    by (auto simp add: getUserWallets_def getDoc_def inMemory_def orEmpty_def persisted_def split: option.splits)
qed

lemma getUserWallets_caches_absent_list:
  assumes "user st = Some u" "walletAddresses u = None" "readFault fs = None"
    and "persisted (Some fs) (uid u) \<noteq> []"
  shows "inMemory (fst (snd (getUserWallets (Some fs) st))) = persisted (Some fs) (uid u)"
  using assms
  by (auto simp add: getUserWallets_def getDoc_def inMemory_def orEmpty_def persisted_def split: option.splits)

lemmas wallets_defs = getUserWallets_def getDoc_def inMemory_def orEmpty_def persisted_def
  isFirestoreInitialized_def

text \<open>
  Claim C5. \<open>getUserWallets\<close> never fails its caller, returns the empty list without a
  user, returns a non-empty in-memory list without reading the store, and after a
  successful read is to store the result in memory. The code misses one case of the
  last part: its "Update local state" block is guarded by \<open>!user.walletAddresses\<close>,
  which is false for an in-memory list that is present but empty, although the check
  at the head of the function treats that list as not populated. For such a user, with
  a document that lists \<open>0xAAA\<close>, the call returns \<open>["0xAAA"]\<close> and leaves the
  in-memory list empty; for the same user without an in-memory list, it stores the
  result.
\<close>

theorem getUserWallets_empty_list_not_cached:
  "inMemory (signedIn (u1\<lparr>walletAddresses := Some []\<rparr>)) = [] \<and>
   fst (getUserWallets (Some (storeWith [''0xAAA''])) (signedIn (u1\<lparr>walletAddresses := Some []\<rparr>)))
     = [''0xAAA''] \<and>
   inMemory (fst (snd (getUserWallets (Some (storeWith [''0xAAA'']))
                         (signedIn (u1\<lparr>walletAddresses := Some []\<rparr>))))) = [] \<and>
   inMemory (fst (snd (getUserWallets (Some (storeWith [''0xAAA''])) (signedIn u1)))) = [''0xAAA'']"
  by (simp add: wallets_defs example_defs Let_def)

text \<open>
  Claim C6. When the user has no document and the store accepts the read and the write,
  \<open>linkWalletToUser\<close> creates the document with the user's \<open>uid\<close>, \<open>email\<close>,
  \<open>displayName\<close>, \<open>photoURL\<close>, the creation time and the singleton address list, and
  the in-memory list becomes that singleton.
\<close>

theorem link_creates_document:
  assumes "user st = Some u" "readFault fs = None" "writeFault fs = None" "docs fs (uid u) = None"
  shows "fst (linkWalletToUser (Some fs) now st w) = Inr () \<and>
         map_option (\<lambda>fs'. docs fs' (uid u)) (snd (snd (linkWalletToUser (Some fs) now st w))) =
           Some (Some \<lparr>doc_uid = uid u, doc_email = email u, doc_displayName = displayName u,
                        doc_photoURL = photoURL u, doc_walletAddresses = Some [w],
                        doc_createdAt = Some now\<rparr>) \<and>
         persisted (snd (snd (linkWalletToUser (Some fs) now st w))) (uid u) = [w] \<and>
         inMemory (fst (snd (linkWalletToUser (Some fs) now st w))) = [w]"
  using assms
  by (simp add: linkWalletToUser_def getDoc_def setDoc_def persisted_def inMemory_def orEmpty_def)

theorem link_creates_document_witness:
  "user (signedIn u1) = Some u1 \<and> readFault emptyStore = None \<and> writeFault emptyStore = None \<and>
   docs emptyStore (uid u1) = None \<and>
   map_option (\<lambda>fs'. docs fs' ''u1'')
     (snd (snd (linkWalletToUser (Some emptyStore) ''2024-05-01T10:00:00.000Z'' (signedIn u1) ''0xAAA''))) =
     Some (Some \<lparr>doc_uid = ''u1'', doc_email = Some ''u1@example.org'',
                  doc_displayName = Some ''User One'', doc_photoURL = None,
                  doc_walletAddresses = Some [''0xAAA''],
                  doc_createdAt = Some ''2024-05-01T10:00:00.000Z''\<rparr>) \<and>
   inMemory (fst (snd (linkWalletToUser (Some emptyStore) ''2024-05-01T10:00:00.000Z'' (signedIn u1) ''0xAAA'')))
     = [''0xAAA'']"
proof -
  have h: "user (signedIn u1) = Some u1" "readFault emptyStore = None" "writeFault emptyStore = None"
    "docs emptyStore (uid u1) = None"
    by (simp_all add: example_defs)
  have f: "uid u1 = ''u1''" "email u1 = Some ''u1@example.org''" "displayName u1 = Some ''User One''"
    "photoURL u1 = None"
    by (simp_all add: u1_def)
  show ?thesis
    using h link_creates_document [OF h, of "''2024-05-01T10:00:00.000Z''" "''0xAAA''"]
    by (simp only: f)
qed

text \<open>
  Claim C8, as the code has it. The store handle is checked first: without it
  \<open>linkWalletToUser\<close> throws "Firestore is not initialized", after a toast and with
  \<open>firestoreError\<close> set, whether or not a user is signed in. With an initialised
  store handle and no user, it throws "No user logged in" and changes neither the
  provider state nor the store.
\<close>

theorem link_requires_user:
  "(db = None \<longrightarrow>
      linkWalletToUser db now st w =
        (Inl (Error ''Firestore is not initialized''),
         st\<lparr>diagnostics := diagnostics st @
               [Toast ''Firestore Error''
                  ''Firestore database is not properly initialized. Check your environment variables.''],
             firestoreError := Some ''Firestore is not initialized. Check your environment variables.''\<rparr>,
         None)) \<and>
   (db \<noteq> None \<and> user st = None \<longrightarrow> linkWalletToUser db now st w = (Inl NotAuthenticated, st, db))"
  by (auto simp add: linkWalletToUser_def isFirestoreInitialized_def)

theorem link_requires_user_witness:
  "Some emptyStore \<noteq> None \<and> user signedOut = None \<and>
   linkWalletToUser (Some emptyStore) ''t1'' signedOut ''0xAAA'' = (Inl NotAuthenticated, signedOut, Some emptyStore) \<and>
   user (signedIn u1) \<noteq> None \<and>
   fst (linkWalletToUser None ''t1'' (signedIn u1) ''0xAAA'') = Inl (Error ''Firestore is not initialized'') \<and>
   fst (linkWalletToUser None ''t1'' signedOut ''0xAAA'') = Inl (Error ''Firestore is not initialized'')"
proof -
  have h: "user signedOut = None" "user (signedIn u1) \<noteq> None" by (simp_all add: signedOut_def signedIn_def)
  from h(1) link_requires_user [of "Some emptyStore" "''t1''" signedOut "''0xAAA''"]
  have 1: "linkWalletToUser (Some emptyStore) ''t1'' signedOut ''0xAAA'' =
      (Inl NotAuthenticated, signedOut, Some emptyStore)"
    by blast
  from link_requires_user [of None "''t1''" "signedIn u1" "''0xAAA''"]
  have 2: "fst (linkWalletToUser None ''t1'' (signedIn u1) ''0xAAA'') = Inl (Error ''Firestore is not initialized'')"
    by simp
  from link_requires_user [of None "''t1''" signedOut "''0xAAA''"]
  have 3: "fst (linkWalletToUser None ''t1'' signedOut ''0xAAA'') = Inl (Error ''Firestore is not initialized'')"
    by simp
  from h 1 2 3 show ?thesis by simp
qed

theorem link_requires_user_counterexample:
  "user signedOut = None \<and>
   fst (linkWalletToUser None ''t1'' signedOut ''0xAAA'') = Inl (Error ''Firestore is not initialized'') \<and>
   fst (linkWalletToUser None ''t1'' signedOut ''0xAAA'') \<noteq> Inl NotAuthenticated \<and>
   firestoreError (fst (snd (linkWalletToUser None ''t1'' signedOut ''0xAAA''))) \<noteq> firestoreError signedOut"
  by (simp add: linkWalletToUser_def isFirestoreInitialized_def signedOut_def)

section \<open>Properties of the Wallet Session Adapter\<close>

lemma refreshBalance_start_fields:
  "account (fst (refreshBalance_start p a cur)) = account cur"
  "isConnected (fst (refreshBalance_start p a cur)) = isConnected cur"
  "balance (fst (refreshBalance_start p a cur)) = balance cur"
  by (simp_all add: refreshBalance_start_def Let_def)

lemma refreshBalance_settle_fields:
  "account (refreshBalance_settle w r st) = account st"
  "isConnected (refreshBalance_settle w r st) = isConnected st"
  by (simp_all add: refreshBalance_settle_def split: sum.splits)

lemma handleAccountsChanged_empty:
  "handleAccountsChanged [] st = (st\<lparr>account := '''', balance := ''0'', isConnected := False\<rparr>, [])"
  by (simp add: handleAccountsChanged_def)

lemma handleAccountsChanged_state:
  assumes "accounts \<noteq> []" "hd accounts \<noteq> account st"
  shows "account (fst (handleAccountsChanged accounts st)) = hd accounts"
    "isConnected (fst (handleAccountsChanged accounts st))"
    "balance (fst (handleAccountsChanged accounts st)) = balance st"
  using assms
  by (simp_all add: handleAccountsChanged_def refreshBalance_start_def Let_def)

text \<open>
  The listener never asks for the balance of the address it has just stored: the read
  it starts, if any, is for the account held before the notification.
\<close>

lemma handleAccountsChanged_reads_old_account:
  assumes "accounts \<noteq> []" "hd accounts \<noteq> account st"
  shows "handleAccountsChanged accounts st =
           (if provider st \<and> account st \<noteq> ''''
            then (st\<lparr>account := hd accounts, isConnected := True,
                     actions := actions st @ [CallRefreshBalance, RequestBalance (account st)]\<rparr>,
                  [RefreshBalance (account st)])
            else (st\<lparr>account := hd accounts, isConnected := True,
                     actions := actions st @ [CallRefreshBalance]\<rparr>, []))"
  using assms
  by (simp add: handleAccountsChanged_def refreshBalance_start_def Let_def)

lemmas adapter_defs = started_def resumed_def without_def handleAccountsChanged_def
  refreshBalance_start_def refreshBalance_settle_def Let_def

lemmas adapter_examples = metamask_def connectedAAA_def disconnected_def initialWeb3_def

text \<open>
  Claim C7. An \<open>accountsChanged\<close> notification with an empty list is a disconnection,
  and one with a different first address is to update the address and the flag and to
  refresh the balance. The code does the first, and updates address and flag, but the
  \<open>refreshBalance()\<close> of the listener reads the account of the render the listener
  was created in. With \<open>0xAAA\<close> connected, the notification \<open>["0xBBB"]\<close> stores
  \<open>0xBBB\<close> and requests the balance of \<open>0xAAA\<close>, which then is shown for
  \<open>0xBBB\<close>; with no address held, the same notification requests nothing, and the
  balance stays \<open>"0"\<close>.
\<close>

theorem accounts_changed_stale_refresh:
  "ui (w3step metamask connectedAAA (AccountsChanged [])) =
     (ui connectedAAA)\<lparr>account := '''', balance := ''0'', isConnected := False\<rparr> \<and>
   account (ui (w3step metamask connectedAAA (AccountsChanged [''0xBBB'']))) = ''0xBBB'' \<and>
   isConnected (ui (w3step metamask connectedAAA (AccountsChanged [''0xBBB'']))) \<and>
   actions (ui (w3step metamask connectedAAA (AccountsChanged [''0xBBB''])))
     = [CallRefreshBalance, RequestBalance ''0xAAA''] \<and>
   pending (w3step metamask connectedAAA (AccountsChanged [''0xBBB''])) = [RefreshBalance ''0xAAA''] \<and>
   account (ui (w3run metamask connectedAAA
                  [AccountsChanged [''0xBBB''], BalanceArrives 0 (Inr 1000000000000000000)])) = ''0xBBB'' \<and>
   actions (ui (w3run metamask connectedAAA
                  [AccountsChanged [''0xBBB''], BalanceArrives 0 (Inr 1000000000000000000)]))
     = [CallRefreshBalance, RequestBalance ''0xAAA''] \<and>
   account (ui (w3step metamask disconnected (AccountsChanged [''0xBBB'']))) = ''0xBBB'' \<and>
   isConnected (ui (w3step metamask disconnected (AccountsChanged [''0xBBB'']))) \<and>
   actions (ui (w3step metamask disconnected (AccountsChanged [''0xBBB'']))) = [CallRefreshBalance] \<and>
   pending (w3step metamask disconnected (AccountsChanged [''0xBBB''])) = [] \<and>
   balance (ui (w3step metamask disconnected (AccountsChanged [''0xBBB'']))) = ''0''"
  by (simp add: w3run_def adapter_defs adapter_examples)

lemma flag_inv_start: "flag_inv (fst (refreshBalance_start p a cur)) = flag_inv cur"
  by (simp add: flag_inv_def refreshBalance_start_fields)

lemma connection_inv_start: "connection_inv (fst (refreshBalance_start p a cur)) = connection_inv cur"
  by (simp add: connection_inv_def flag_inv_def refreshBalance_start_fields)

lemma connection_inv_connected:
  "isConnected st \<Longrightarrow> account st \<noteq> '''' \<Longrightarrow> connection_inv st"
  by (simp add: connection_inv_def flag_inv_def)

lemma connection_inv_flag: "connection_inv st \<Longrightarrow> flag_inv st"
  by (simp add: connection_inv_def)

lemma handleAccountsChanged_inv:
  assumes "list_all (\<lambda>a. a \<noteq> '''') accounts"
  shows "flag_inv st \<Longrightarrow> flag_inv (fst (handleAccountsChanged accounts st))"
    and "connection_inv st \<Longrightarrow> connection_inv (fst (handleAccountsChanged accounts st))"
proof -
  show "flag_inv st \<Longrightarrow> flag_inv (fst (handleAccountsChanged accounts st))"
    using assms
    by (cases accounts)
       (auto simp add: handleAccountsChanged_def flag_inv_def refreshBalance_start_def Let_def)
  show "connection_inv st \<Longrightarrow> connection_inv (fst (handleAccountsChanged accounts st))"
    using assms
    by (cases accounts)
       (auto simp add: handleAccountsChanged_def connection_inv_def flag_inv_def refreshBalance_start_def Let_def)
qed

lemma initProvider_inv:
  "flag_inv st \<Longrightarrow> flag_inv (fst (initProvider_start w st))"
  "connection_inv st \<Longrightarrow> connection_inv (fst (initProvider_start w st))"
  by (simp_all add: initProvider_start_def connection_inv_def flag_inv_def)

lemma initProvider_accounts_inv:
  assumes "wellformed_event (AccountsArrive k answer)"
  shows "flag_inv st \<Longrightarrow> flag_inv (fst (initProvider_accounts answer st))"
    and "connection_inv st \<Longrightarrow> connection_inv (fst (initProvider_accounts answer st))"
proof -
  show "flag_inv st \<Longrightarrow> flag_inv (fst (initProvider_accounts answer st))"
    using assms
    by (cases answer; cases "projr answer")
       (auto simp add: initProvider_accounts_def flag_inv_def)
  show "connection_inv st \<Longrightarrow> connection_inv (fst (initProvider_accounts answer st))"
    using assms
    by (cases answer; cases "projr answer")
       (auto simp add: initProvider_accounts_def connection_inv_def flag_inv_def)
qed

lemma connectWallet_start_inv:
  "flag_inv st \<Longrightarrow> flag_inv (fst (connectWallet_start w st))"
  "connection_inv st \<Longrightarrow> connection_inv (fst (connectWallet_start w st))"
  by (simp_all add: connectWallet_start_def connection_inv_def flag_inv_def)

lemma connectWallet_accounts_inv:
  assumes "wellformed_event (AccountsArrive k answer)"
  shows "flag_inv st \<Longrightarrow> flag_inv (fst (connectWallet_accounts p a answer st))"
    and "connection_inv st \<Longrightarrow> connection_inv (fst (connectWallet_accounts p a answer st))"
proof -
  show "flag_inv st \<Longrightarrow> flag_inv (fst (connectWallet_accounts p a answer st))"
    using assms
    by (cases answer; cases "projr answer")
       (auto simp add: connectWallet_accounts_def flag_inv_def refreshBalance_start_def Let_def)
  show "connection_inv st \<Longrightarrow> connection_inv (fst (connectWallet_accounts p a answer st))"
    using assms
    by (cases answer; cases "projr answer")
       (auto simp add: connectWallet_accounts_def connection_inv_def flag_inv_def refreshBalance_start_def Let_def)
qed

lemma balance_continuations_flag:
  "flag_inv (initProvider_balance w r st) = flag_inv st"
  "flag_inv (connectWallet_balance w r st) = flag_inv st"
  "flag_inv (refreshBalance_settle w r st) = flag_inv st"
  by (simp_all add: flag_inv_def initProvider_balance_def connectWallet_balance_def
      refreshBalance_settle_def Let_def split: sum.splits)

lemma balance_continuations_connected:
  assumes "connection_inv st" "isConnected st"
  shows "connection_inv (initProvider_balance w r st)"
    "connection_inv (connectWallet_balance w r st)"
    "connection_inv (refreshBalance_settle w r st)"
  using assms
  by (simp_all add: connection_inv_def flag_inv_def initProvider_balance_def connectWallet_balance_def
      refreshBalance_settle_def Let_def split: sum.splits)

lemma w3step_flag_inv:
  assumes "wellformed_event ev" "flag_inv (ui ad)"
  shows "flag_inv (ui (w3step w ad ev))"
proof (cases ev)
  case Mount
  with assms show ?thesis by (simp add: started_def initProvider_inv)
next
  case ConnectClick
  with assms show ?thesis by (simp add: started_def connectWallet_start_inv)
next
  case DisconnectCall
  then show ?thesis by (simp add: disconnectWallet_def flag_inv_def)
next
  case RefreshClick
  obtain st' r where eq: "refreshBalance_start (provider (ui ad)) (account (ui ad)) (ui ad) = (st', r)"
    by (cases "refreshBalance_start (provider (ui ad)) (account (ui ad)) (ui ad)")
  with assms(2) flag_inv_start [of "provider (ui ad)" "account (ui ad)" "ui ad"]
  have "flag_inv st'" by simp
  with RefreshClick eq show ?thesis by (cases r) (simp_all add: started_def)
next
  case (AccountsChanged accounts)
  with assms show ?thesis by (simp add: started_def handleAccountsChanged_inv)
next
  case (AccountsArrive k answer)
  with assms show ?thesis
    by (auto simp add: resumed_def initProvider_accounts_inv connectWallet_accounts_inv split: task.splits)
next
  case (BalanceArrives k answer)
  with assms show ?thesis
    by (auto simp add: resumed_def balance_continuations_flag split: task.splits)
qed

lemma w3step_connection_inv:
  assumes "wellformed_event ev" "connection_inv (ui ad)" "balance_arrival ev \<longrightarrow> isConnected (ui ad)"
  shows "connection_inv (ui (w3step w ad ev))"
proof (cases ev)
  case Mount
  with assms show ?thesis by (simp add: started_def initProvider_inv)
next
  case ConnectClick
  with assms show ?thesis by (simp add: started_def connectWallet_start_inv)
next
  case DisconnectCall
  then show ?thesis by (simp add: disconnectWallet_def connection_inv_def flag_inv_def)
next
  case RefreshClick
  obtain st' r where eq: "refreshBalance_start (provider (ui ad)) (account (ui ad)) (ui ad) = (st', r)"
    by (cases "refreshBalance_start (provider (ui ad)) (account (ui ad)) (ui ad)")
  with assms(2) connection_inv_start [of "provider (ui ad)" "account (ui ad)" "ui ad"]
  have "connection_inv st'" by simp
  with RefreshClick eq show ?thesis by (cases r) (simp_all add: started_def)
next
  case (AccountsChanged accounts)
  with assms show ?thesis by (simp add: started_def handleAccountsChanged_inv)
next
  case (AccountsArrive k answer)
  with assms show ?thesis
    by (auto simp add: resumed_def initProvider_accounts_inv connectWallet_accounts_inv split: task.splits)
next
  case (BalanceArrives k answer)
  with assms show ?thesis
    by (auto simp add: resumed_def balance_continuations_connected split: task.splits)
qed

text \<open>
  Claim C10, as the code has it. That the flag is set exactly when an address is held
  holds initially and is preserved by every event of the adapter: the mount, a
  connect, a disconnect, a notification, and the arrival of any answer (for address
  lists without empty strings). That the balance is \<open>"0"\<close> whenever the flag is not
  set holds initially, is established by \<open>disconnectWallet\<close> and by an empty
  notification, and is preserved by every event except the arrival of a balance on a
  disconnected state: a read that was started earlier is not cancelled, and its
  \<open>setBalance\<close> lands whatever the flag is.
\<close>

theorem connection_inv_events:
  "connection_inv initialWeb3 \<and>
   connection_inv (disconnectWallet st) \<and>
   connection_inv (fst (handleAccountsChanged [] st)) \<and>
   (wellformed_event ev \<and> flag_inv (ui ad) \<longrightarrow> flag_inv (ui (w3step w ad ev))) \<and>
   (wellformed_event ev \<and> connection_inv (ui ad) \<and> (balance_arrival ev \<longrightarrow> isConnected (ui ad)) \<longrightarrow>
      connection_inv (ui (w3step w ad ev)))"
proof (intro conjI impI)
  show "connection_inv initialWeb3" by (simp add: connection_inv_def flag_inv_def initialWeb3_def)
  show "connection_inv (disconnectWallet st)"
    by (simp add: connection_inv_def flag_inv_def disconnectWallet_def)
  show "connection_inv (fst (handleAccountsChanged [] st))"
    by (simp add: connection_inv_def flag_inv_def handleAccountsChanged_def)
next
  assume "wellformed_event ev \<and> flag_inv (ui ad)"
  then show "flag_inv (ui (w3step w ad ev))" by (simp add: w3step_flag_inv)
next
  assume "wellformed_event ev \<and> connection_inv (ui ad) \<and> (balance_arrival ev \<longrightarrow> isConnected (ui ad))"
  then show "connection_inv (ui (w3step w ad ev))" by (simp add: w3step_connection_inv)
qed

theorem connection_inv_events_witness:
  "wellformed_event (AccountsChanged [''0xBBB'']) \<and> connection_inv (ui connectedAAA) \<and>
   \<not> balance_arrival (AccountsChanged [''0xBBB'']) \<and>
   connection_inv (ui (w3step metamask connectedAAA (AccountsChanged [''0xBBB'']))) \<and>
   wellformed_event (BalanceArrives 0 (Inr 1000000000000000000)) \<and>
   isConnected (ui (w3step metamask connectedAAA (AccountsChanged [''0xBBB'']))) \<and>
   connection_inv (ui (w3step metamask (w3step metamask connectedAAA (AccountsChanged [''0xBBB'']))
                         (BalanceArrives 0 (Inr 1000000000000000000))))"
proof -
  let ?ad = "w3step metamask connectedAAA (AccountsChanged [''0xBBB''])"
  have h: "wellformed_event (AccountsChanged [''0xBBB''])" "connection_inv (ui connectedAAA)"
    "\<not> balance_arrival (AccountsChanged [''0xBBB''])"
    "wellformed_event (BalanceArrives 0 (Inr 1000000000000000000))"
    by (simp_all add: connection_inv_def flag_inv_def connectedAAA_def)
  from h connection_inv_events [of _ "AccountsChanged [''0xBBB'']" connectedAAA metamask]
  have 1: "connection_inv (ui ?ad)" by blast
  have c: "isConnected (ui ?ad)" by (simp add: adapter_defs adapter_examples)
  from h 1 c connection_inv_events [of _ "BalanceArrives 0 (Inr 1000000000000000000)" ?ad metamask]
  have 2: "connection_inv (ui (w3step metamask ?ad (BalanceArrives 0 (Inr 1000000000000000000))))"
    by simp
  from h 1 c 2 show ?thesis by blast
qed

theorem connection_inv_events_counterexample:
  "connection_inv (ui connectedAAA) \<and>
   \<not> isConnected (ui (w3run metamask connectedAAA
        [AccountsChanged [''0xBBB''], AccountsChanged [], BalanceArrives 0 (Inr 1000000000000000000)])) \<and>
   balance (ui (w3run metamask connectedAAA
        [AccountsChanged [''0xBBB''], AccountsChanged [], BalanceArrives 0 (Inr 1000000000000000000)])) = ''1.0'' \<and>
   \<not> connection_inv (ui (w3run metamask connectedAAA
        [AccountsChanged [''0xBBB''], AccountsChanged [], BalanceArrives 0 (Inr 1000000000000000000)])) \<and>
   connection_inv (ui (w3run metamask \<lparr>ui = initialWeb3, pending = []\<rparr>
        [Mount, AccountsArrive 0 (Inr [''0xAAA'']), AccountsChanged []])) \<and>
   pending (w3run metamask \<lparr>ui = initialWeb3, pending = []\<rparr>
        [Mount, AccountsArrive 0 (Inr [''0xAAA'']), AccountsChanged []]) = [InitBalance ''0xAAA''] \<and>
   \<not> connection_inv (ui (w3run metamask \<lparr>ui = initialWeb3, pending = []\<rparr>
        [Mount, AccountsArrive 0 (Inr [''0xAAA'']), AccountsChanged [],
         BalanceArrives 0 (Inr 1000000000000000000)]))"
  by (simp add: w3run_def adapter_defs adapter_examples connection_inv_def flag_inv_def
      initProvider_start_def initProvider_accounts_def initProvider_balance_def)

section \<open>Properties of the dashboard effect\<close>

lemma linkWalletIfConnected_linked:
  "walletLinked d \<Longrightarrow> linkWalletIfConnected d = d"
  by (simp add: linkWalletIfConnected_def)

lemma linkWalletIfConnected_walletLinked:
  "walletLinked (linkWalletIfConnected d) = walletLinked d"
  by (simp add: linkWalletIfConnected_def)





text \<open>
  The effect can run again while a call is still pending, because \<open>walletLinked\<close> is
  set only after the \<open>await\<close>: at sign-in the user is set twice, first the minimal
  user and then the profile read from the store, and with a wallet connected each of
  the two renders calls \<open>linkWalletToUser\<close> for the same address.
\<close>

lemma link_called_twice_while_pending:
  "linkCalls (drun mountedDashboard
     [ContextChanged True (Some u1) ''0xAAA'',
      ContextChanged True (Some (u1\<lparr>walletAddresses := Some []\<rparr>)) ''0xAAA''])
   = [''0xAAA'', ''0xAAA'']"
  by (simp add: drun_def mountedDashboard_def linkWalletIfConnected_def)




section \<open>Properties of the amount conversion\<close>

subsection \<open>Hexadecimal strings denote the integers they were made from\<close>






subsection \<open>Rounding is exact on Numbers\<close>











subsection \<open>The value of the request\<close>
















end
